theory Spec2Isabelle
  imports Main
begin

section \<open>Python values and exceptions\<close>

text \<open>
  The template tags of \<^verbatim>\<open>chunks/templatetags/chunks.py\<close>, embedded as functions over an
  explicit world (the result cache and a log of the calls made to the collaborators).
  Every exception of the source is a value of \<open>exn\<close>; a function that may raise returns
  \<open>exn + 'a\<close>, with \<open>Inl\<close> for the exception.
\<close>

datatype exn =
    ImproperlyConfigured
  | VariableDoesNotExist
  | Chunk_DoesNotExist
  | InlineChunk_DoesNotExist
  | TemplateSyntaxError
  | UnboundLocalError
  | IndexError
  | AttributeError
  | ValueError
  | TypeError

text \<open>
  A model instance that owns inline chunks: its class (which fixes its content type) and
  its primary key \<^verbatim>\<open>obj.id\<close>.
\<close>

datatype owner = Owner (cls: string) (oid: int)

text \<open>
  The values a template context holds, as far as the tags look at them: \<open>PObj\<close> is a
  chunk-owning model instance, \<open>POpaque\<close> any other object (the \<^verbatim>\<open>HttpRequest\<close>, say),
  \<open>PDict\<close> a dictionary from chunk keys to rendered text.
\<close>

datatype pyval =
    PNone
  | PInt int
  | PStr string
  | PDict "(string \<times> string) list"
  | PObj owner
  | POpaque string

type_synonym Context = "pyval \<rightharpoonup> pyval"

text \<open>Python's truth test, as \<^verbatim>\<open>if not request\<close> and \<^verbatim>\<open>if self.default_chunk\<close> apply it.\<close>

fun truthy :: "pyval \<Rightarrow> bool" where
  "truthy PNone = False"
| "truthy (PInt n) = (n \<noteq> 0)"
| "truthy (PStr s) = (s \<noteq> [])"
| "truthy (PDict kvs) = (kvs \<noteq> [])"
| "truthy (PObj ob) = True"
| "truthy (POpaque nm) = True"

text \<open>A dictionary cannot be a dictionary key: \<^verbatim>\<open>context[{}] = ...\<close> raises TypeError.\<close>

fun hashable :: "pyval \<Rightarrow> bool" where
  "hashable (PDict kvs) = False"
| "hashable v = True"

text \<open>\<^verbatim>\<open>context.get(name, None)\<close>.\<close>

definition context_get :: "Context \<Rightarrow> string \<Rightarrow> pyval" where
  "context_get context name = (case context (PStr name) of None \<Rightarrow> PNone | Some v \<Rightarrow> v)"

subsection \<open>The builtin \<^verbatim>\<open>int\<close>\<close>

definition is_space :: "char \<Rightarrow> bool" where
  "is_space c = (c \<in> set [CHR 0x20, CHR 0x09, CHR 0x0A, CHR 0x0B, CHR 0x0C, CHR 0x0D])"

definition strip :: "string \<Rightarrow> string" where
  "strip s = rev (dropWhile is_space (rev (dropWhile is_space s)))"

definition is_digit :: "char \<Rightarrow> bool" where
  "is_digit c = (48 \<le> (of_char c :: nat) \<and> (of_char c :: nat) \<le> 57)"

definition digit_val :: "char \<Rightarrow> int" where
  "digit_val c = int (of_char c) - 48"

definition parse_digits :: "string \<Rightarrow> exn + int" where
  "parse_digits ds =
     (if ds \<noteq> [] \<and> list_all is_digit ds
      then Inr (foldl (\<lambda>n c. 10 * n + digit_val c) 0 ds)
      else Inl ValueError)"

text \<open>
  \<^verbatim>\<open>int(x)\<close> for the two kinds of value a node's \<^verbatim>\<open>cache_time\<close> can be: the integer default
  \<^verbatim>\<open>0\<close>, or the token of the template, a string (decimal digits with an optional sign,
  surrounding ASCII white space ignored; anything else is a ValueError). Python also strips
  white space beyond ASCII, such as U+00A0, which is a ValueError here: where \<open>py_int\<close>
  succeeds, \<^verbatim>\<open>int\<close> gives the same number, and the theorems below use it only in that
  direction.
\<close>

fun py_int :: "pyval \<Rightarrow> exn + int" where
  "py_int (PInt n) = Inr n"
| "py_int (PStr s) =
     (case strip s of
        [] \<Rightarrow> Inl ValueError
      | c # ds \<Rightarrow>
          if c = CHR ''-'' then map_sum id uminus (parse_digits ds)
          else if c = CHR ''+'' then parse_digits ds
          else parse_digits (c # ds))"
| "py_int v = Inl TypeError"

section \<open>The collaborators\<close>

text \<open>
  A row of the \<^verbatim>\<open>Chunk\<close> table (key, content) or of the \<^verbatim>\<open>InlineChunk\<close> table (content
  type, object id, key, content).
\<close>

datatype chunk =
    Chunk string string
  | InlineChunk string int string string

text \<open>
  A \<^verbatim>\<open>template.Variable\<close>: Django's constructor decides whether a token is a literal (a number,
  or a string in matching quotes) or a variable to look up in the context.
\<close>

datatype variable =
    Literal pyval
  | Lookups "string list"

text \<open>
  What the module takes from outside: the constant \<^verbatim>\<open>Chunk.ITEM_CACHE_PREFIX\<close>, Django's
  \<^verbatim>\<open>template.Variable\<close> (the constructor, which may raise TemplateSyntaxError, and the lookup
  of a variable in a context), the two tables, the renderer \<^verbatim>\<open>c.build_content(request,
  context)\<close>, and the two methods of an owner, \<^verbatim>\<open>obj.chunk_item_cache_key(key)\<close> and
  \<^verbatim>\<open>obj.chunks(request, context)\<close>. Any of the calls may raise.
\<close>

record env =
  CACHE_PREFIX :: string
  Variable :: "string \<Rightarrow> exn + variable"
  resolve_lookup :: "string list \<Rightarrow> Context \<Rightarrow> exn + pyval"
  Chunk_objects :: "string \<rightharpoonup> chunk"
  InlineChunk_objects :: "string \<times> int \<times> string \<rightharpoonup> chunk"
  build_content :: "chunk \<Rightarrow> pyval \<Rightarrow> Context \<Rightarrow> exn + string"
  chunk_item_cache_key :: "owner \<Rightarrow> string \<Rightarrow> exn + string"
  chunks :: "owner \<Rightarrow> pyval \<Rightarrow> Context \<Rightarrow> exn + pyval"

text \<open>\<^verbatim>\<open>Variable.resolve(context)\<close>: a literal is its own value.\<close>

definition Variable_resolve :: "env \<Rightarrow> variable \<Rightarrow> Context \<Rightarrow> exn + pyval" where
  "Variable_resolve E v context =
     (case v of Literal x \<Rightarrow> Inr x | Lookups bits \<Rightarrow> resolve_lookup E bits context)"

section \<open>The world: result cache and call log\<close>

text \<open>
  Every call to the cache, to the tables, to the renderer and to an owner's aggregation
  is logged, so that "is never consulted" is a statement about the log.
\<close>

datatype event =
    CacheGet string
  | CacheSet string string int
  | ChunkGet string
  | InlineChunkGet string int string
  | BuildContent chunk
  | OwnerChunks owner

text \<open>
  The cache maps a key to the text stored under it and the timeout it was stored with.
  Time is not modelled: an entry stays until it is overwritten.
\<close>

record world =
  cache :: "string \<rightharpoonup> string \<times> int"
  trace :: "event list"

definition log :: "event \<Rightarrow> world \<Rightarrow> world" where
  "log ev w = w\<lparr>trace := trace w @ [ev]\<rparr>"

text \<open>\<^verbatim>\<open>cache.get(cache_key)\<close>: \<open>None\<close> is Python's \<^verbatim>\<open>None\<close>.\<close>

definition cache_get :: "string \<Rightarrow> world \<Rightarrow> string option \<times> world" where
  "cache_get cache_key w = (map_option fst (cache w cache_key), log (CacheGet cache_key) w)"

text \<open>\<^verbatim>\<open>cache.set(cache_key, content, timeout)\<close>.\<close>

definition cache_set :: "string \<Rightarrow> string \<Rightarrow> int \<Rightarrow> world \<Rightarrow> world" where
  "cache_set cache_key content timeout w =
     log (CacheSet cache_key content timeout)
       (w\<lparr>cache := (cache w)(cache_key \<mapsto> (content, timeout))\<rparr>)"

text \<open>\<^verbatim>\<open>Chunk.objects.get(key=k)\<close>.\<close>

definition Chunk_objects_get :: "env \<Rightarrow> string \<Rightarrow> world \<Rightarrow> (exn + chunk) \<times> world" where
  "Chunk_objects_get E k w =
     ((case Chunk_objects E k of None \<Rightarrow> Inl Chunk_DoesNotExist | Some c \<Rightarrow> Inr c),
      log (ChunkGet k) w)"

text \<open>
  Lines 40 to 46: the content type of the owner's class, its id, and
  \<^verbatim>\<open>InlineChunk.objects.get(content_type=..., object_id=..., key=...)\<close>.
\<close>

definition InlineChunk_objects_get ::
  "env \<Rightarrow> pyval \<Rightarrow> string \<Rightarrow> world \<Rightarrow> (exn + chunk) \<times> world" where
  "InlineChunk_objects_get E obj k w =
     (case obj of
        PObj ob \<Rightarrow>
          ((case InlineChunk_objects E (cls ob, oid ob, k) of
              None \<Rightarrow> Inl InlineChunk_DoesNotExist
            | Some c \<Rightarrow> Inr c),
           log (InlineChunkGet (cls ob) (oid ob) k) w)
      | _ \<Rightarrow> (Inl AttributeError, w))"

text \<open>\<^verbatim>\<open>obj.chunk_item_cache_key(key)\<close>; only an owner has the method.\<close>

definition call_chunk_item_cache_key :: "env \<Rightarrow> pyval \<Rightarrow> string \<Rightarrow> exn + string" where
  "call_chunk_item_cache_key E obj k =
     (case obj of PObj ob \<Rightarrow> chunk_item_cache_key E ob k | _ \<Rightarrow> Inl AttributeError)"

text \<open>\<^verbatim>\<open>obj.chunks(request, context)\<close>.\<close>

definition call_chunks ::
  "env \<Rightarrow> pyval \<Rightarrow> pyval \<Rightarrow> Context \<Rightarrow> world \<Rightarrow> (exn + pyval) \<times> world" where
  "call_chunks E obj request context w =
     (case obj of
        PObj ob \<Rightarrow> (chunks E ob request context, log (OwnerChunks ob) w)
      | _ \<Rightarrow> (Inl AttributeError, w))"

text \<open>
  \<^verbatim>\<open>try: ... except (A, B): content = default\<close> around a block: an exception of the tuple
  becomes the default value, any other goes on to the caller.
\<close>

definition catch_in :: "exn list \<Rightarrow> 'a \<Rightarrow> (exn + 'a) \<times> world \<Rightarrow> (exn + 'a) \<times> world" where
  "catch_in handled dflt r =
     (case r of
        (Inl e, w) \<Rightarrow> if e \<in> set handled then (Inr dflt, w) else (Inl e, w)
      | (Inr v, w) \<Rightarrow> (Inr v, w))"

section \<open>The nodes\<close>

text \<open>
  Lines 56 to 61 and 119 to 124, the same in both nodes: the request is taken from the
  context and must be truthy, the chunk is rendered, and the text is stored under the
  cache key with \<^verbatim>\<open>int(self.cache_time)\<close> as timeout.
\<close>

definition build_and_cache ::
  "env \<Rightarrow> chunk \<Rightarrow> string \<Rightarrow> pyval \<Rightarrow> Context \<Rightarrow> world \<Rightarrow> (exn + string) \<times> world" where
  "build_and_cache E c cache_key cache_time context w =
     (let request = context_get context ''request'' in
      if \<not> truthy request then (Inl ImproperlyConfigured, w)
      else
        (case build_content E c request context of
           Inl e \<Rightarrow> (Inl e, log (BuildContent c) w)
         | Inr content \<Rightarrow>
             (case py_int cache_time of
                Inl e \<Rightarrow> (Inl e, log (BuildContent c) w)
              | Inr timeout \<Rightarrow>
                  (Inr content, cache_set cache_key content timeout (log (BuildContent c) w)))))"

record ChunkNode =
  cn_key :: string
  cn_cache_time :: pyval

text \<open>\<^verbatim>\<open>ChunkNode.render\<close>, lines 112 to 128.\<close>

definition ChunkNode_render ::
  "env \<Rightarrow> ChunkNode \<Rightarrow> Context \<Rightarrow> world \<Rightarrow> (exn + string) \<times> world" where
  "ChunkNode_render E self context w =
     catch_in [Chunk_DoesNotExist] ''''
       (let cache_key = CACHE_PREFIX E @ cn_key self in
        case cache_get cache_key w of
          (Some content, w1) \<Rightarrow> (Inr content, w1)
        | (None, w1) \<Rightarrow>
            (case Chunk_objects_get E (cn_key self) w1 of
               (Inl e, w2) \<Rightarrow> (Inl e, w2)
             | (Inr c, w2) \<Rightarrow>
                 build_and_cache E c cache_key (cn_cache_time self) context w2))"

record ObjChunkNode =
  ocn_obj :: variable
  ocn_key :: string
  ocn_cache_time :: pyval
  ocn_default_chunk :: "string option"

text \<open>
  \<^verbatim>\<open>ObjChunkNode.render\<close>, lines 33 to 65. The inner handler (line 47) takes
  \<^verbatim>\<open>InlineChunk.DoesNotExist\<close> only; both \<^verbatim>\<open>return ''\<close> of lines 52 and 54 leave the
  function before anything is stored.
\<close>

definition ObjChunkNode_render ::
  "env \<Rightarrow> ObjChunkNode \<Rightarrow> Context \<Rightarrow> world \<Rightarrow> (exn + string) \<times> world" where
  "ObjChunkNode_render E self context w =
     catch_in [Chunk_DoesNotExist, VariableDoesNotExist] ''''
       (case Variable_resolve E (ocn_obj self) context of
          Inl e \<Rightarrow> (Inl e, w)
        | Inr obj \<Rightarrow>
            (case call_chunk_item_cache_key E obj (ocn_key self) of
               Inl e \<Rightarrow> (Inl e, w)
             | Inr cache_key \<Rightarrow>
                 (case cache_get cache_key w of
                    (Some content, w1) \<Rightarrow> (Inr content, w1)
                  | (None, w1) \<Rightarrow>
                      (case InlineChunk_objects_get E obj (ocn_key self) w1 of
                         (Inr c, w2) \<Rightarrow>
                           build_and_cache E c cache_key (ocn_cache_time self) context w2
                       | (Inl e, w2) \<Rightarrow>
                           if e = InlineChunk_DoesNotExist then
                             (case ocn_default_chunk self of
                                None \<Rightarrow> (Inr '''', w2)
                              | Some default_chunk \<Rightarrow>
                                  if default_chunk = [] then (Inr '''', w2)
                                  else
                                    (case Chunk_objects_get E default_chunk w2 of
                                       (Inl e', w3) \<Rightarrow>
                                         if e' = Chunk_DoesNotExist then (Inr '''', w3)
                                         else (Inl e', w3)
                                     | (Inr c, w3) \<Rightarrow>
                                         build_and_cache E c cache_key
                                           (ocn_cache_time self) context w3))
                           else (Inl e, w2)))))"

record ObjChunksListNode =
  ocln_obj :: variable
  ocln_context_name :: "string option"
  ocln_context_name_var :: "variable option"

text \<open>
  Lines 92 to 102 of \<^verbatim>\<open>ObjChunksListNode.render\<close>: the \<^verbatim>\<open>try\<close> block that computes
  \<^verbatim>\<open>chunks\<close>.
\<close>

definition collect_chunks ::
  "env \<Rightarrow> ObjChunksListNode \<Rightarrow> Context \<Rightarrow> world \<Rightarrow> (exn + pyval) \<times> world" where
  "collect_chunks E self context w =
     catch_in [Chunk_DoesNotExist, VariableDoesNotExist] (PDict [])
       (case Variable_resolve E (ocln_obj self) context of
          Inl e \<Rightarrow> (Inl e, w)
        | Inr obj \<Rightarrow>
            (let request = context_get context ''request'' in
             if \<not> truthy request then (Inl ImproperlyConfigured, w)
             else call_chunks E obj request context w))"

text \<open>Lines 86 to 90: the name to bind under; the variable is resolved outside the \<^verbatim>\<open>try\<close>.\<close>

definition target_name :: "env \<Rightarrow> ObjChunksListNode \<Rightarrow> Context \<Rightarrow> exn + pyval" where
  "target_name E self context =
     (let context_name =
            (case ocln_context_name self of
               None \<Rightarrow> PStr ''''
             | Some s \<Rightarrow> if s \<noteq> [] then PStr s else PStr '''')
      in case ocln_context_name_var self of
           None \<Rightarrow> Inr context_name
         | Some v \<Rightarrow> Variable_resolve E v context)"

text \<open>
  \<^verbatim>\<open>ObjChunksListNode.render\<close>, lines 85 to 104: the text returned, the context after the
  call, and the world.
\<close>

definition ObjChunksListNode_render ::
  "env \<Rightarrow> ObjChunksListNode \<Rightarrow> Context \<Rightarrow> world \<Rightarrow> (exn + string) \<times> Context \<times> world" where
  "ObjChunksListNode_render E self context w =
     (case target_name E self context of
        Inl e \<Rightarrow> (Inl e, context, w)
      | Inr context_name \<Rightarrow>
          (case collect_chunks E self context w of
             (Inl e, w1) \<Rightarrow> (Inl e, context, w1)
           | (Inr chunks_val, w1) \<Rightarrow>
               if hashable context_name
               then (Inr '''', context(context_name \<mapsto> chunks_val), w1)
               else (Inl TypeError, context, w1)))"

section \<open>The tag functions\<close>

text \<open>
  \<^verbatim>\<open>key[0] == key[-1] and key[0] in ('"', "'")\<close>; indexing the empty string raises
  IndexError.
\<close>

definition is_quoted :: "string \<Rightarrow> exn + bool" where
  "is_quoted s =
     (if s = [] then Inl IndexError
      else Inr (hd s = last s \<and> hd s \<in> set [CHR 0x22, CHR 0x27]))"

text \<open>The slice \<^verbatim>\<open>s[1:-1]\<close>.\<close>

definition unquote :: "string \<Rightarrow> string" where
  "unquote s = butlast (tl s)"

text \<open>\<^verbatim>\<open>do_get_chunk\<close>, lines 131 to 147. The message of line 136 reads \<^verbatim>\<open>tokens[0]\<close>.\<close>

definition do_get_chunk :: "string list \<Rightarrow> exn + ChunkNode" where
  "do_get_chunk tokens =
     (if length tokens < 2 \<or> length tokens > 3 then
        (if tokens = [] then Inl IndexError else Inl TemplateSyntaxError)
      else
        (let (key, cache_time) =
               (case tokens of
                  [tag_name, key] \<Rightarrow> (key, PInt 0)
                | [tag_name, key, cache_time] \<Rightarrow> (key, PStr cache_time))
         in case is_quoted key of
              Inl e \<Rightarrow> Inl e
            | Inr ok \<Rightarrow>
                if \<not> ok then Inl TemplateSyntaxError
                else Inr \<lparr>cn_key = unquote key, cn_cache_time = cache_time\<rparr>))"

text \<open>\<^verbatim>\<open>ObjChunkNode.__init__\<close>, lines 27 to 31.\<close>

definition ObjChunkNode_init ::
  "env \<Rightarrow> string \<Rightarrow> string \<Rightarrow> pyval \<Rightarrow> string option \<Rightarrow> exn + ObjChunkNode" where
  "ObjChunkNode_init E obj key cache_time default_chunk =
     (case Variable E obj of
        Inl e \<Rightarrow> Inl e
      | Inr v \<Rightarrow>
          Inr \<lparr>ocn_obj = v, ocn_key = key, ocn_cache_time = cache_time,
               ocn_default_chunk = default_chunk\<rparr>)"

text \<open>Lines 169 to 175 of \<^verbatim>\<open>do_get_object_chunk\<close>: the check of the key and the node.\<close>

definition checked_ObjChunkNode ::
  "env \<Rightarrow> string \<Rightarrow> string \<Rightarrow> pyval \<Rightarrow> string option \<Rightarrow> exn + ObjChunkNode" where
  "checked_ObjChunkNode E obj key cache_time default_chunk =
     (case is_quoted key of
        Inl e \<Rightarrow> Inl e
      | Inr ok \<Rightarrow>
          if \<not> ok then Inl TemplateSyntaxError
          else ObjChunkNode_init E obj (unquote key) cache_time default_chunk)"

text \<open>
  \<^verbatim>\<open>do_get_object_chunk\<close>, lines 150 to 175. The guard of line 154 is
  \<^verbatim>\<open>len(tokens) < 2 or len(tokens) > 5\<close>; none of the three \<^verbatim>\<open>if\<close>s of lines 157, 160 and 162
  binds \<^verbatim>\<open>key\<close> for two tokens, and line 170 then reads an unbound local.
\<close>

definition do_get_object_chunk :: "env \<Rightarrow> string list \<Rightarrow> exn + ObjChunkNode" where
  "do_get_object_chunk E tokens =
     (if length tokens < 2 \<or> length tokens > 5 then
        (if tokens = [] then Inl IndexError else Inl TemplateSyntaxError)
      else
        (case tokens of
           [tag_name, obj, key] \<Rightarrow> checked_ObjChunkNode E obj key (PInt 0) None
         | [tag_name, obj, key, cache_time] \<Rightarrow>
             checked_ObjChunkNode E obj key (PStr cache_time) None
         | [tag_name, obj, key, cache_time, default_chunk] \<Rightarrow>
             (case is_quoted default_chunk of
                Inl e \<Rightarrow> Inl e
              | Inr ok \<Rightarrow>
                  if \<not> ok then Inl TemplateSyntaxError
                  else checked_ObjChunkNode E obj key (PStr cache_time)
                         (Some (unquote default_chunk)))
         | _ \<Rightarrow> Inl UnboundLocalError))"

text \<open>
  Line 73: \<^verbatim>\<open>quotes = ["'\""]\<close>, a list of one string of two characters.
\<close>

definition quotes :: "string list" where
  "quotes = [[CHR 0x27, CHR 0x22]]"

text \<open>
  \<^verbatim>\<open>ObjChunksListNode.__init__\<close>, lines 71 to 83. Line 76 tests whether the one-character
  string \<^verbatim>\<open>context_name[1]\<close> is an element of \<^verbatim>\<open>quotes\<close>.
\<close>

definition ObjChunksListNode_init :: "env \<Rightarrow> string \<Rightarrow> string \<Rightarrow> exn + ObjChunksListNode" where
  "ObjChunksListNode_init E obj context_name =
     (case Variable E obj of
        Inl e \<Rightarrow> Inl e
      | Inr ov \<Rightarrow>
          if length context_name < 2 then Inl IndexError
          else if [context_name ! 1] \<in> set quotes then
            (if context_name ! 1 \<noteq> last context_name then Inl TemplateSyntaxError
             else Inr \<lparr>ocln_obj = ov, ocln_context_name = Some (unquote context_name),
                       ocln_context_name_var = None\<rparr>)
          else
            (case Variable E context_name of
               Inl e \<Rightarrow> Inl e
             | Inr nv \<Rightarrow>
                 Inr \<lparr>ocln_obj = ov, ocln_context_name = None,
                      ocln_context_name_var = Some nv\<rparr>))"

text \<open>\<^verbatim>\<open>do_get_object_chunks_list\<close>, lines 178 to 188.\<close>

definition do_get_object_chunks_list :: "env \<Rightarrow> string list \<Rightarrow> exn + ObjChunksListNode" where
  "do_get_object_chunks_list E tokens =
     (case tokens of
        [tag_name, obj, context_name] \<Rightarrow> ObjChunksListNode_init E obj context_name
      | [] \<Rightarrow> Inl IndexError
      | _ \<Rightarrow> Inl TemplateSyntaxError)"

section \<open>Reading the log\<close>

text \<open>The calls one operation added to the log of the world it started in.\<close>

definition new_events :: "world \<Rightarrow> world \<Rightarrow> event list" where
  "new_events w w' = drop (length (trace w)) (trace w')"

fun is_ChunkGet :: "event \<Rightarrow> bool" where
  "is_ChunkGet (ChunkGet k) = True"
| "is_ChunkGet ev = False"

fun is_CacheSet :: "event \<Rightarrow> bool" where
  "is_CacheSet (CacheSet k v t) = True"
| "is_CacheSet ev = False"

fun is_cache_event :: "event \<Rightarrow> bool" where
  "is_cache_event (CacheGet k) = True"
| "is_cache_event (CacheSet k v t) = True"
| "is_cache_event ev = False"

section \<open>A concrete site\<close>

text \<open>
  An installation to run the tags on: one article with two inline chunks, three global
  chunks (one with empty content), a renderer that returns the content as it is, and a
  \<^verbatim>\<open>Variable\<close> that knows quoted literals and plain names. It stands for Django's only on
  such tokens: it has no numeric literals and no dotted lookups, and the examples below
  use neither.
\<close>

definition article :: owner where
  "article = Owner ''article'' 42"

definition site_Variable :: "string \<Rightarrow> exn + variable" where
  "site_Variable tok =
     (if is_quoted tok = Inr True \<and> 2 \<le> length tok then Inr (Literal (PStr (unquote tok)))
      else if tok = [] \<or> hd tok = CHR ''_'' then Inl TemplateSyntaxError
      else Inr (Lookups [tok]))"

definition site_resolve_lookup :: "string list \<Rightarrow> Context \<Rightarrow> exn + pyval" where
  "site_resolve_lookup bits context =
     (case bits of
        [name] \<Rightarrow>
          (case context (PStr name) of None \<Rightarrow> Inl VariableDoesNotExist | Some v \<Rightarrow> Inr v)
      | _ \<Rightarrow> Inl VariableDoesNotExist)"

definition site_build_content :: "chunk \<Rightarrow> pyval \<Rightarrow> Context \<Rightarrow> exn + string" where
  "site_build_content c request context =
     (case c of Chunk k text \<Rightarrow> Inr text | InlineChunk ct i k text \<Rightarrow> Inr text)"

definition site :: env where
  "site =
     \<lparr>CACHE_PREFIX = ''chunk_'',
      Variable = site_Variable,
      resolve_lookup = site_resolve_lookup,
      Chunk_objects =
        [''footer'' \<mapsto> Chunk ''footer'' ''(c) Acme'',
         ''byline_default'' \<mapsto> Chunk ''byline_default'' ''Staff'',
         ''blank'' \<mapsto> Chunk ''blank'' ''''],
      InlineChunk_objects =
        [(''article'', 42, ''byline'') \<mapsto> InlineChunk ''article'' 42 ''byline'' ''By J. Doe'',
         (''article'', 42, ''note'') \<mapsto> InlineChunk ''article'' 42 ''note'' ''''],
      build_content = site_build_content,
      chunk_item_cache_key =
        (\<lambda>ob k. if ob = article then Inr (''chunk_article_42_'' @ k) else Inl AttributeError),
      chunks =
        (\<lambda>ob request context.
           if ob = article then Inr (PDict [(''byline'', ''By J. Doe''), (''note'', '''')])
           else Inl AttributeError)\<rparr>"

text \<open>A context with a request and the article, and one with the article only.\<close>

definition page :: Context where
  "page = [PStr ''request'' \<mapsto> POpaque ''HttpRequest'', PStr ''article'' \<mapsto> PObj article,
           PStr ''slot'' \<mapsto> PStr ''sidebar'']"

definition bare :: Context where
  "bare = [PStr ''article'' \<mapsto> PObj article]"

definition fresh :: world where
  "fresh = \<lparr>cache = Map.empty, trace = []\<rparr>"

definition warm :: world where
  "warm =
     \<lparr>cache = [''chunk_footer'' \<mapsto> (''old footer'', 60),
               ''chunk_gone'' \<mapsto> (''old text'', 60),
               ''chunk_article_42_byline'' \<mapsto> (''old byline'', 60)],
      trace = []\<rparr>"

text \<open>The nodes of a few tags, as the tag functions build them.\<close>

definition footer_node :: ChunkNode where
  "footer_node = \<lparr>cn_key = ''footer'', cn_cache_time = PStr ''60''\<rparr>"

definition gone_node :: ChunkNode where
  "gone_node = \<lparr>cn_key = ''gone'', cn_cache_time = PInt 0\<rparr>"

definition blank_node :: ChunkNode where
  "blank_node = \<lparr>cn_key = ''blank'', cn_cache_time = PStr ''60''\<rparr>"

definition byline_node :: ObjChunkNode where
  "byline_node =
     \<lparr>ocn_obj = Lookups [''article''], ocn_key = ''byline'', ocn_cache_time = PInt 0,
      ocn_default_chunk = Some ''byline_default''\<rparr>"

definition note_node :: ObjChunkNode where
  "note_node =
     \<lparr>ocn_obj = Lookups [''article''], ocn_key = ''note'', ocn_cache_time = PStr ''30'',
      ocn_default_chunk = None\<rparr>"

definition teaser_node :: ObjChunkNode where
  "teaser_node =
     \<lparr>ocn_obj = Lookups [''article''], ocn_key = ''teaser'', ocn_cache_time = PStr ''30'',
      ocn_default_chunk = Some ''byline_default''\<rparr>"

definition orphan_node :: ObjChunkNode where
  "orphan_node =
     \<lparr>ocn_obj = Lookups [''article''], ocn_key = ''teaser'', ocn_cache_time = PStr ''30'',
      ocn_default_chunk = Some ''nothing''\<rparr>"

definition stray_node :: ObjChunkNode where
  "stray_node =
     \<lparr>ocn_obj = Lookups [''missing''], ocn_key = ''byline'', ocn_cache_time = PInt 0,
      ocn_default_chunk = None\<rparr>"

definition list_node :: ObjChunksListNode where
  "list_node =
     \<lparr>ocln_obj = Lookups [''article''], ocln_context_name = None,
      ocln_context_name_var = Some (Literal (PStr ''all''))\<rparr>"

definition stray_list_node :: ObjChunksListNode where
  "stray_list_node =
     \<lparr>ocln_obj = Lookups [''missing''], ocln_context_name = None,
      ocln_context_name_var = Some (Literal (PStr ''all''))\<rparr>"

definition lost_list_node :: ObjChunksListNode where
  "lost_list_node =
     \<lparr>ocln_obj = Lookups [''missing''], ocln_context_name = None,
      ocln_context_name_var = Some (Lookups [''nowhere''])\<rparr>"

definition slot_list_node :: ObjChunksListNode where
  "slot_list_node =
     \<lparr>ocln_obj = Lookups [''article''], ocln_context_name = None,
      ocln_context_name_var = Some (Lookups [''slot''])\<rparr>"

section \<open>The log and the cache under the primitive operations\<close>

lemma trace_log [simp]: "trace (log ev w) = trace w @ [ev]"
  by (simp add: log_def)

lemma cache_log [simp]: "cache (log ev w) = cache w"
  by (simp add: log_def)

lemma trace_cache_set [simp]: "trace (cache_set k v t w) = trace w @ [CacheSet k v t]"
  by (simp add: cache_set_def)

lemma cache_cache_set [simp]: "cache (cache_set k v t w) = (cache w)(k \<mapsto> (v, t))"
  by (simp add: cache_set_def)

lemma new_events_append: "trace w' = trace w @ evs \<Longrightarrow> new_events w w' = evs"
  by (simp add: new_events_def)

lemma world_eqI: "cache w' = cache w \<Longrightarrow> trace w' = trace w \<Longrightarrow> (w' :: world) = w"
  by simp

lemma snd_catch_in [simp]: "snd (catch_in handled dflt r) = snd r"
  by (simp add: catch_in_def split: prod.splits sum.splits)

lemma catch_in_Inr [simp]: "catch_in handled dflt (Inr v, w) = (Inr v, w)"
  by (simp add: catch_in_def)

lemma catch_in_ImproperlyConfigured:
  "ImproperlyConfigured \<notin> set handled \<Longrightarrow>
   catch_in handled dflt (Inl ImproperlyConfigured, w) = (Inl ImproperlyConfigured, w)"
  by (simp add: catch_in_def)

section \<open>The paths of the renders\<close>

lemma build_and_cache_no_request:
  "\<not> truthy (context_get context ''request'') \<Longrightarrow>
   build_and_cache E c ck ct context w = (Inl ImproperlyConfigured, w)"
  by (simp add: build_and_cache_def)

lemma build_and_cache_ok:
  "truthy (context_get context ''request'') \<Longrightarrow>
   build_content E c (context_get context ''request'') context = Inr text \<Longrightarrow>
   py_int ct = Inr ttl \<Longrightarrow>
   build_and_cache E c ck ct context w =
     (Inr text, cache_set ck text ttl (log (BuildContent c) w))"
  by (simp add: build_and_cache_def)

lemma build_and_cache_trace:
  "\<exists>evs. trace (snd (build_and_cache E c ck ct context w)) = trace w @ evs \<and>
         \<not> list_ex is_ChunkGet evs"
  by (simp add: build_and_cache_def Let_def split: sum.splits)

lemma ChunkNode_render_hit:
  "cache w (CACHE_PREFIX E @ cn_key self) = Some (text, ttl) \<Longrightarrow>
   ChunkNode_render E self context w =
     (Inr text, log (CacheGet (CACHE_PREFIX E @ cn_key self)) w)"
  by (simp add: ChunkNode_render_def cache_get_def catch_in_def)

lemma ChunkNode_render_absent:
  "cache w (CACHE_PREFIX E @ cn_key self) = None \<Longrightarrow>
   Chunk_objects E (cn_key self) = None \<Longrightarrow>
   ChunkNode_render E self context w =
     (Inr '''', log (ChunkGet (cn_key self)) (log (CacheGet (CACHE_PREFIX E @ cn_key self)) w))"
  by (simp add: ChunkNode_render_def cache_get_def catch_in_def Chunk_objects_get_def)

lemma ChunkNode_render_found:
  "cache w (CACHE_PREFIX E @ cn_key self) = None \<Longrightarrow>
   Chunk_objects E (cn_key self) = Some c \<Longrightarrow>
   ChunkNode_render E self context w =
     catch_in [Chunk_DoesNotExist] ''''
       (build_and_cache E c (CACHE_PREFIX E @ cn_key self) (cn_cache_time self) context
          (log (ChunkGet (cn_key self)) (log (CacheGet (CACHE_PREFIX E @ cn_key self)) w)))"
  by (simp add: ChunkNode_render_def cache_get_def Chunk_objects_get_def Let_def)

lemma ObjChunkNode_render_hit:
  "Variable_resolve E (ocn_obj self) context = Inr obj \<Longrightarrow>
   call_chunk_item_cache_key E obj (ocn_key self) = Inr ck \<Longrightarrow>
   cache w ck = Some (text, ttl) \<Longrightarrow>
   ObjChunkNode_render E self context w = (Inr text, log (CacheGet ck) w)"
  by (simp add: ObjChunkNode_render_def cache_get_def catch_in_def)

lemma ObjChunkNode_render_inline:
  "Variable_resolve E (ocn_obj self) context = Inr (PObj ob) \<Longrightarrow>
   chunk_item_cache_key E ob (ocn_key self) = Inr ck \<Longrightarrow>
   cache w ck = None \<Longrightarrow>
   InlineChunk_objects E (cls ob, oid ob, ocn_key self) = Some c \<Longrightarrow>
   ObjChunkNode_render E self context w =
     catch_in [Chunk_DoesNotExist, VariableDoesNotExist] ''''
       (build_and_cache E c ck (ocn_cache_time self) context
          (log (InlineChunkGet (cls ob) (oid ob) (ocn_key self)) (log (CacheGet ck) w)))"
  by (simp add: ObjChunkNode_render_def cache_get_def call_chunk_item_cache_key_def
      InlineChunk_objects_get_def)

lemma ObjChunkNode_render_default:
  "Variable_resolve E (ocn_obj self) context = Inr (PObj ob) \<Longrightarrow>
   chunk_item_cache_key E ob (ocn_key self) = Inr ck \<Longrightarrow>
   cache w ck = None \<Longrightarrow>
   InlineChunk_objects E (cls ob, oid ob, ocn_key self) = None \<Longrightarrow>
   ocn_default_chunk self = Some dk \<Longrightarrow> dk \<noteq> [] \<Longrightarrow>
   Chunk_objects E dk = Some c \<Longrightarrow>
   ObjChunkNode_render E self context w =
     catch_in [Chunk_DoesNotExist, VariableDoesNotExist] ''''
       (build_and_cache E c ck (ocn_cache_time self) context
          (log (ChunkGet dk)
             (log (InlineChunkGet (cls ob) (oid ob) (ocn_key self)) (log (CacheGet ck) w))))"
  by (simp add: ObjChunkNode_render_def cache_get_def call_chunk_item_cache_key_def
      InlineChunk_objects_get_def Chunk_objects_get_def)

lemma ObjChunkNode_render_absent:
  "Variable_resolve E (ocn_obj self) context = Inr (PObj ob) \<Longrightarrow>
   chunk_item_cache_key E ob (ocn_key self) = Inr ck \<Longrightarrow>
   cache w ck = None \<Longrightarrow>
   InlineChunk_objects E (cls ob, oid ob, ocn_key self) = None \<Longrightarrow>
   (case ocn_default_chunk self of None \<Rightarrow> True | Some dk \<Rightarrow> Chunk_objects E dk = None) \<Longrightarrow>
   ObjChunkNode_render E self context w =
     (Inr '''',
      (case ocn_default_chunk self of
         None \<Rightarrow> id
       | Some dk \<Rightarrow> if dk = [] then id else log (ChunkGet dk))
        (log (InlineChunkGet (cls ob) (oid ob) (ocn_key self)) (log (CacheGet ck) w)))"
  by (simp add: ObjChunkNode_render_def cache_get_def call_chunk_item_cache_key_def
      InlineChunk_objects_get_def Chunk_objects_get_def catch_in_def split: option.splits)

lemma ObjChunkNode_render_unresolved:
  "Variable_resolve E (ocn_obj self) context = Inl VariableDoesNotExist \<Longrightarrow>
   ObjChunkNode_render E self context w = (Inr '''', w)"
  by (simp add: ObjChunkNode_render_def catch_in_def)

lemma collect_chunks_unresolved:
  "Variable_resolve E (ocln_obj self) context = Inl VariableDoesNotExist \<Longrightarrow>
   collect_chunks E self context w = (Inr (PDict []), w)"
  by (simp add: collect_chunks_def catch_in_def)

lemma collect_chunks_no_request:
  "Variable_resolve E (ocln_obj self) context = Inr obj \<Longrightarrow>
   \<not> truthy (context_get context ''request'') \<Longrightarrow>
   collect_chunks E self context w = (Inl ImproperlyConfigured, w)"
  by (simp add: collect_chunks_def catch_in_def)

lemma collect_chunks_ok:
  "Variable_resolve E (ocln_obj self) context = Inr (PObj ob) \<Longrightarrow>
   truthy (context_get context ''request'') \<Longrightarrow>
   chunks E ob (context_get context ''request'') context = Inr m \<Longrightarrow>
   collect_chunks E self context w = (Inr m, log (OwnerChunks ob) w)"
  by (simp add: collect_chunks_def call_chunks_def)

lemma collect_chunks_world:
  "cache (snd (collect_chunks E self context w)) = cache w \<and>
   (\<exists>evs. trace (snd (collect_chunks E self context w)) = trace w @ evs \<and>
          \<not> list_ex is_cache_event evs)"
  by (simp add: collect_chunks_def call_chunks_def Let_def split: sum.splits pyval.splits)

text \<open>
  Line 76 never holds: \<^verbatim>\<open>context_name[1]\<close> has one character, the only element of
  \<^verbatim>\<open>quotes\<close> has two. A node that \<^verbatim>\<open>__init__\<close> returns holds the target name as a
  \<^verbatim>\<open>Variable\<close>, quoted or not.
\<close>

lemma ObjChunksListNode_init_var:
  "ObjChunksListNode_init E obj context_name = Inr self \<Longrightarrow>
   \<exists>ov nv. Variable E obj = Inr ov \<and> Variable E context_name = Inr nv \<and>
     self = \<lparr>ocln_obj = ov, ocln_context_name = None, ocln_context_name_var = Some nv\<rparr>"
  by (auto simp: ObjChunksListNode_init_def quotes_def split: sum.splits if_splits)

lemma target_name_init:
  "ObjChunksListNode_init E obj context_name = Inr self \<Longrightarrow>
   Variable E context_name = Inr nv \<Longrightarrow>
   target_name E self context = Variable_resolve E nv context"
  by (auto simp: target_name_def dest: ObjChunksListNode_init_var)

lemma Variable_resolve_Chunk_objects [simp]:
  "Variable_resolve (E\<lparr>Chunk_objects := T\<rparr>) v context = Variable_resolve E v context"
  by (cases v) (simp_all add: Variable_resolve_def)

lemma build_and_cache_Chunk_objects [simp]:
  "build_and_cache (E\<lparr>Chunk_objects := T\<rparr>) c ck ct context w =
   build_and_cache E c ck ct context w"
  by (simp add: build_and_cache_def Let_def)

section \<open>Resolution of an object's chunk\<close>

text \<open>
  C1. A call of \<^verbatim>\<open>ObjChunkNode.render\<close> whose owner resolves, whose cache key is derived and
  misses the cache, and for which the \<^verbatim>\<open>InlineChunk\<close> table has a row \<open>c\<close> for the owner's
  type, the owner's id and the key: whenever \<open>c\<close> renders to a text (a request is in the
  context, and the timeout is an integer), that text is what the call returns; the call
  makes no \<^verbatim>\<open>Chunk.objects.get\<close> at all; and its whole outcome is the same whatever
  \<^verbatim>\<open>default_chunk\<close> the node carries and whatever the \<^verbatim>\<open>Chunk\<close> table holds.
\<close>

theorem inline_chunk_preferred:
  assumes "Variable_resolve E (ocn_obj self) context = Inr (PObj ob)"
    and "chunk_item_cache_key E ob (ocn_key self) = Inr ck"
    and "cache w ck = None"
    and "InlineChunk_objects E (cls ob, oid ob, ocn_key self) = Some c"
  shows "(truthy (context_get context ''request'') \<and>
          build_content E c (context_get context ''request'') context = Inr text \<and>
          py_int (ocn_cache_time self) = Inr ttl \<longrightarrow>
            fst (ObjChunkNode_render E self context w) = Inr text) \<and>
         \<not> list_ex is_ChunkGet (new_events w (snd (ObjChunkNode_render E self context w))) \<and>
         ObjChunkNode_render (E\<lparr>Chunk_objects := T\<rparr>) (self\<lparr>ocn_default_chunk := d\<rparr>) context w =
           ObjChunkNode_render E self context w"
proof -
  let ?w2 = "log (InlineChunkGet (cls ob) (oid ob) (ocn_key self)) (log (CacheGet ck) w)"
  have path: "ObjChunkNode_render E self context w =
      catch_in [Chunk_DoesNotExist, VariableDoesNotExist] ''''
        (build_and_cache E c ck (ocn_cache_time self) context ?w2)"
    using assms by (rule ObjChunkNode_render_inline)
  have rendered: "fst (ObjChunkNode_render E self context w) = Inr text"
    if "truthy (context_get context ''request'')"
      and "build_content E c (context_get context ''request'') context = Inr text"
      and "py_int (ocn_cache_time self) = Inr ttl"
    using that by (simp add: path build_and_cache_ok)
  obtain evs where evs: "trace (snd (build_and_cache E c ck (ocn_cache_time self) context ?w2)) =
      trace ?w2 @ evs" "\<not> list_ex is_ChunkGet evs"
    using build_and_cache_trace by blast
  have "trace (snd (ObjChunkNode_render E self context w)) =
      trace w @ ([CacheGet ck, InlineChunkGet (cls ob) (oid ob) (ocn_key self)] @ evs)"
    by (simp add: path evs)
  then have "new_events w (snd (ObjChunkNode_render E self context w)) =
      [CacheGet ck, InlineChunkGet (cls ob) (oid ob) (ocn_key self)] @ evs"
    by (rule new_events_append)
  then have quiet: "\<not> list_ex is_ChunkGet (new_events w (snd (ObjChunkNode_render E self context w)))"
    using evs(2) by simp
  have "ObjChunkNode_render (E\<lparr>Chunk_objects := T\<rparr>) (self\<lparr>ocn_default_chunk := d\<rparr>) context w =
      catch_in [Chunk_DoesNotExist, VariableDoesNotExist] ''''
        (build_and_cache (E\<lparr>Chunk_objects := T\<rparr>) c ck
           (ocn_cache_time (self\<lparr>ocn_default_chunk := d\<rparr>)) context
           (log (InlineChunkGet (cls ob) (oid ob) (ocn_key (self\<lparr>ocn_default_chunk := d\<rparr>)))
              (log (CacheGet ck) w)))"
    using assms by (intro ObjChunkNode_render_inline) simp_all
  also have "\<dots> = ObjChunkNode_render E self context w"
    by (simp add: path)
  finally show ?thesis using rendered quiet by blast
qed

text \<open>
  The article of the site has an inline chunk \<^verbatim>\<open>byline\<close>, and the tag names the global chunk
  \<^verbatim>\<open>byline_default\<close> as default: the inline text is returned, with no lookup of a global
  chunk.
\<close>

theorem inline_chunk_preferred_witness:
  "cache fresh ''chunk_article_42_byline'' = None \<and>
   fst (ObjChunkNode_render site
         \<lparr>ocn_obj = Lookups [''article''], ocn_key = ''byline'', ocn_cache_time = PInt 0,
          ocn_default_chunk = Some ''byline_default''\<rparr> page fresh) = Inr ''By J. Doe'' \<and>
   \<not> list_ex is_ChunkGet (new_events fresh (snd (ObjChunkNode_render site
         \<lparr>ocn_obj = Lookups [''article''], ocn_key = ''byline'', ocn_cache_time = PInt 0,
          ocn_default_chunk = Some ''byline_default''\<rparr> page fresh)))"
  using inline_chunk_preferred [of site
      "\<lparr>ocn_obj = Lookups [''article''], ocn_key = ''byline'', ocn_cache_time = PInt 0,
        ocn_default_chunk = Some ''byline_default''\<rparr>"
      page article "''chunk_article_42_byline''" fresh
      "InlineChunk ''article'' 42 ''byline'' ''By J. Doe''" "''By J. Doe''" 0
      "Chunk_objects site" "Some ''byline_default''"]
  by (simp add: site_def page_def fresh_def article_def Variable_resolve_def
      site_resolve_lookup_def site_build_content_def context_get_def)

section \<open>Parsing of the \<^verbatim>\<open>object_chunk\<close> tag\<close>

lemma do_get_object_chunk_outside_2_5:
  "tokens \<noteq> [] \<Longrightarrow> length tokens < 2 \<or> 5 < length tokens \<Longrightarrow>
   do_get_object_chunk E tokens = Inl TemplateSyntaxError"
  by (simp add: do_get_object_chunk_def)

text \<open>
  C4. The claim asks for a syntax error for every token list shorter than 3 or longer
  than 5. The guard of line 154 lets a list of two tokens (the tag name and the owner)
  through, and the parse ends in the UnboundLocalError of line 170 instead.
\<close>

theorem two_tokens_unbound_local:
  "do_get_object_chunk E [tag_name, obj] = Inl UnboundLocalError"
  by (simp add: do_get_object_chunk_def)

section \<open>The cache protocol\<close>

lemmas site_simps = site_def page_def bare_def fresh_def warm_def article_def
  Variable_resolve_def site_resolve_lookup_def site_build_content_def context_get_def
  call_chunk_item_cache_key_def site_Variable_def

lemma py_int_60: "py_int (PStr ''60'') = Inr 60"
  by (simp add: strip_def is_space_def parse_digits_def is_digit_def digit_val_def)

lemma py_int_30: "py_int (PStr ''30'') = Inr 30"
  by (simp add: strip_def is_space_def parse_digits_def is_digit_def digit_val_def)

text \<open>
  C5. When the cache holds a text under the cache key (the prefix and the key for
  \<^verbatim>\<open>ChunkNode\<close>; what the owner derives for \<^verbatim>\<open>ObjChunkNode\<close>), the render returns that text,
  and the world it leaves is the one it found with a single call added to the log, the
  \<^verbatim>\<open>cache.get\<close>: no table is read, nothing is rendered, nothing is stored.
\<close>

theorem cache_hit_returns_cached_text:
  "(cache w (CACHE_PREFIX E @ cn_key gnode) = Some (content, ttl) \<longrightarrow>
      ChunkNode_render E gnode ctx w =
        (Inr content, w\<lparr>trace := trace w @ [CacheGet (CACHE_PREFIX E @ cn_key gnode)]\<rparr>)) \<and>
   (Variable_resolve E (ocn_obj onode) ctx = Inr obj \<and>
    call_chunk_item_cache_key E obj (ocn_key onode) = Inr ck \<and>
    cache w ck = Some (content', ttl') \<longrightarrow>
      ObjChunkNode_render E onode ctx w =
        (Inr content', w\<lparr>trace := trace w @ [CacheGet ck]\<rparr>))"
  by (simp add: ChunkNode_render_hit ObjChunkNode_render_hit log_def)

text \<open>A cache that holds older renders of the footer and of the article's byline.\<close>

theorem cache_hit_returns_cached_text_witness:
  "cache warm ''chunk_footer'' = Some (''old footer'', 60) \<and>
   ChunkNode_render site footer_node page warm =
     (Inr ''old footer'', warm\<lparr>trace := [CacheGet ''chunk_footer'']\<rparr>) \<and>
   cache warm ''chunk_article_42_byline'' = Some (''old byline'', 60) \<and>
   ObjChunkNode_render site byline_node page warm =
     (Inr ''old byline'', warm\<lparr>trace := [CacheGet ''chunk_article_42_byline'']\<rparr>)"
  using cache_hit_returns_cached_text [where w = warm and E = site and gnode = footer_node
      and content = "''old footer''" and ttl = 60 and ctx = page and onode = byline_node
      and obj = "PObj article" and ck = "''chunk_article_42_byline''"
      and content' = "''old byline''" and ttl' = 60]
  by (simp add: site_simps footer_node_def byline_node_def)

text \<open>
  C7. A \<^verbatim>\<open>ChunkNode\<close> with key \<open>k\<close> whose cache key, the prefix followed by \<open>k\<close>, misses the
  cache, and whose chunk is found and rendered: the render reads the cache under that key,
  gets the chunk, renders it, stores the text under the same key with
  \<^verbatim>\<open>int(cache_time)\<close> as timeout, and returns the text.
\<close>

theorem resolve_global_renders_and_caches:
  assumes "cache w (CACHE_PREFIX E @ k) = None"
    and "Chunk_objects E k = Some c"
    and "truthy (context_get ctx ''request'')"
    and "build_content E c (context_get ctx ''request'') ctx = Inr content"
    and "py_int cache_time = Inr ttl"
  shows "ChunkNode_render E \<lparr>cn_key = k, cn_cache_time = cache_time\<rparr> ctx w =
     (Inr content,
      w\<lparr>cache := (cache w)(CACHE_PREFIX E @ k \<mapsto> (content, ttl)),
        trace := trace w @ [CacheGet (CACHE_PREFIX E @ k), ChunkGet k, BuildContent c,
                            CacheSet (CACHE_PREFIX E @ k) content ttl]\<rparr>)"
  using assms
  by (simp add: ChunkNode_render_found build_and_cache_ok cache_set_def log_def)

text \<open>The tag \<^verbatim>\<open>{% chunk "footer" 60 %}\<close> on an empty cache.\<close>

theorem resolve_global_renders_and_caches_witness:
  "do_get_chunk [''chunk'', [CHR 0x22] @ ''footer'' @ [CHR 0x22], ''60''] = Inr footer_node \<and>
   cache fresh ''chunk_footer'' = None \<and>
   ChunkNode_render site footer_node page fresh =
     (Inr ''(c) Acme'',
      \<lparr>cache = [''chunk_footer'' \<mapsto> (''(c) Acme'', 60)],
       trace = [CacheGet ''chunk_footer'', ChunkGet ''footer'',
                BuildContent (Chunk ''footer'' ''(c) Acme''),
                CacheSet ''chunk_footer'' ''(c) Acme'' 60]\<rparr>)"
proof -
  have parsed: "do_get_chunk [''chunk'', [CHR 0x22] @ ''footer'' @ [CHR 0x22], ''60''] =
      Inr footer_node"
    by (simp add: do_get_chunk_def is_quoted_def unquote_def footer_node_def)
  have miss: "cache fresh (CACHE_PREFIX site @ ''footer'') = None"
    by (simp add: fresh_def)
  have found: "Chunk_objects site ''footer'' = Some (Chunk ''footer'' ''(c) Acme'')"
    by (simp add: site_def)
  have request: "truthy (context_get page ''request'')"
    by (simp add: page_def context_get_def)
  have rendered: "build_content site (Chunk ''footer'' ''(c) Acme'')
      (context_get page ''request'') page = Inr ''(c) Acme''"
    by (simp add: site_def site_build_content_def)
  show ?thesis
    using parsed resolve_global_renders_and_caches [OF miss found request rendered py_int_60]
    by (simp add: footer_node_def fresh_def site_def)
qed

section \<open>Chunks that are not found\<close>

lemma new_events_log3:
  "new_events w (log a (log b (log c w))) = [c, b, a]"
  "new_events w (log a (log b w)) = [b, a]"
  "new_events w (log a w) = [a]"
  "new_events w w = []"
  by (simp_all add: new_events_def)

text \<open>
  C2, amended by the cache miss it leaves out. On a cache miss: a \<^verbatim>\<open>ChunkNode\<close> whose key no
  \<^verbatim>\<open>Chunk\<close> matches, and an \<^verbatim>\<open>ObjChunkNode\<close> whose owner has no \<^verbatim>\<open>InlineChunk\<close> for the key and
  whose default is absent or matches no \<^verbatim>\<open>Chunk\<close>, return the empty string, make no
  \<^verbatim>\<open>cache.set\<close>, and leave the cache as it was.
\<close>

theorem not_found_is_empty_and_uncached:
  "(cache w (CACHE_PREFIX E @ cn_key gnode) = None \<and> Chunk_objects E (cn_key gnode) = None \<longrightarrow>
      fst (ChunkNode_render E gnode ctx w) = Inr '''' \<and>
      cache (snd (ChunkNode_render E gnode ctx w)) = cache w \<and>
      \<not> list_ex is_CacheSet (new_events w (snd (ChunkNode_render E gnode ctx w)))) \<and>
   (Variable_resolve E (ocn_obj onode) ctx = Inr (PObj ob) \<and>
    chunk_item_cache_key E ob (ocn_key onode) = Inr ck \<and>
    cache w ck = None \<and>
    InlineChunk_objects E (cls ob, oid ob, ocn_key onode) = None \<and>
    (case ocn_default_chunk onode of None \<Rightarrow> True | Some dk \<Rightarrow> Chunk_objects E dk = None) \<longrightarrow>
      fst (ObjChunkNode_render E onode ctx w) = Inr '''' \<and>
      cache (snd (ObjChunkNode_render E onode ctx w)) = cache w \<and>
      \<not> list_ex is_CacheSet (new_events w (snd (ObjChunkNode_render E onode ctx w))))"
proof (intro conjI impI)
  assume "cache w (CACHE_PREFIX E @ cn_key gnode) = None \<and> Chunk_objects E (cn_key gnode) = None"
  then have path: "ChunkNode_render E gnode ctx w =
      (Inr '''', log (ChunkGet (cn_key gnode)) (log (CacheGet (CACHE_PREFIX E @ cn_key gnode)) w))"
    by (simp add: ChunkNode_render_absent)
  show "fst (ChunkNode_render E gnode ctx w) = Inr ''''"
    by (simp add: path)
  show "cache (snd (ChunkNode_render E gnode ctx w)) = cache w"
    by (simp add: path)
  show "\<not> list_ex is_CacheSet (new_events w (snd (ChunkNode_render E gnode ctx w)))"
    by (simp add: path new_events_log3)
next
  assume hyp: "Variable_resolve E (ocn_obj onode) ctx = Inr (PObj ob) \<and>
    chunk_item_cache_key E ob (ocn_key onode) = Inr ck \<and>
    cache w ck = None \<and>
    InlineChunk_objects E (cls ob, oid ob, ocn_key onode) = None \<and>
    (case ocn_default_chunk onode of None \<Rightarrow> True | Some dk \<Rightarrow> Chunk_objects E dk = None)"
  then have path: "ObjChunkNode_render E onode ctx w =
     (Inr '''',
      (case ocn_default_chunk onode of
         None \<Rightarrow> id
       | Some dk \<Rightarrow> if dk = [] then id else log (ChunkGet dk))
        (log (InlineChunkGet (cls ob) (oid ob) (ocn_key onode)) (log (CacheGet ck) w)))"
    by (simp add: ObjChunkNode_render_absent)
  show "fst (ObjChunkNode_render E onode ctx w) = Inr ''''"
    by (simp add: path)
  show "cache (snd (ObjChunkNode_render E onode ctx w)) = cache w"
    by (simp add: path split: option.splits)
  show "\<not> list_ex is_CacheSet (new_events w (snd (ObjChunkNode_render E onode ctx w)))"
    by (simp add: path new_events_log3 split: option.splits)
qed

text \<open>
  The site has no chunk \<^verbatim>\<open>gone\<close>; its article has no inline chunk \<^verbatim>\<open>teaser\<close>, and there is no
  chunk \<^verbatim>\<open>nothing\<close> to fall back on.
\<close>

theorem not_found_is_empty_and_uncached_witness:
  "cache fresh ''chunk_gone'' = None \<and> Chunk_objects site ''gone'' = None \<and>
   ChunkNode_render site gone_node page fresh =
     (Inr '''', fresh\<lparr>trace := [CacheGet ''chunk_gone'', ChunkGet ''gone'']\<rparr>) \<and>
   InlineChunk_objects site (''article'', 42, ''teaser'') = None \<and>
   Chunk_objects site ''nothing'' = None \<and>
   fst (ObjChunkNode_render site orphan_node page fresh) = Inr '''' \<and>
   cache (snd (ObjChunkNode_render site orphan_node page fresh)) = cache fresh"
  using not_found_is_empty_and_uncached [where w = fresh and E = site and gnode = gone_node
      and ctx = page and onode = orphan_node and ob = article
      and ck = "''chunk_article_42_teaser''"]
  by (simp add: site_simps gone_node_def orphan_node_def ChunkNode_render_absent log_def)

text \<open>
  Without the cache miss the statement fails: the chunk \<^verbatim>\<open>gone\<close> is in no table, but the
  cache still holds an older render of it, and line 116 returns that text.
\<close>

theorem stale_entry_returned_for_missing_chunk:
  "Chunk_objects site ''gone'' = None \<and>
   fst (ChunkNode_render site gone_node page warm) = Inr ''old text'' \<and>
   fst (ChunkNode_render site gone_node page warm) \<noteq> Inr ''''"
  by (simp add: site_def warm_def gone_node_def ChunkNode_render_def cache_get_def Let_def)

section \<open>The paths of the list node\<close>

lemma ObjChunksListNode_render_no_request:
  "target_name E self ctx = Inr n \<Longrightarrow>
   Variable_resolve E (ocln_obj self) ctx = Inr obj \<Longrightarrow>
   \<not> truthy (context_get ctx ''request'') \<Longrightarrow>
   ObjChunksListNode_render E self ctx w = (Inl ImproperlyConfigured, ctx, w)"
  by (simp add: ObjChunksListNode_render_def collect_chunks_no_request)

lemma ObjChunksListNode_render_unresolved:
  "target_name E self ctx = Inr n \<Longrightarrow> hashable n \<Longrightarrow>
   Variable_resolve E (ocln_obj self) ctx = Inl VariableDoesNotExist \<Longrightarrow>
   ObjChunksListNode_render E self ctx w = (Inr '''', ctx(n \<mapsto> PDict []), w)"
  by (simp add: ObjChunksListNode_render_def collect_chunks_unresolved)

lemma ObjChunksListNode_render_ok:
  "target_name E self ctx = Inr n \<Longrightarrow> hashable n \<Longrightarrow>
   Variable_resolve E (ocln_obj self) ctx = Inr (PObj ob) \<Longrightarrow>
   truthy (context_get ctx ''request'') \<Longrightarrow>
   chunks E ob (context_get ctx ''request'') ctx = Inr m \<Longrightarrow>
   ObjChunksListNode_render E self ctx w = (Inr '''', ctx(n \<mapsto> m), log (OwnerChunks ob) w)"
  by (simp add: ObjChunksListNode_render_def collect_chunks_ok)

lemma ObjChunkNode_render_found_no_request:
  "Variable_resolve E (ocn_obj self) ctx = Inr (PObj ob) \<Longrightarrow>
   chunk_item_cache_key E ob (ocn_key self) = Inr ck \<Longrightarrow>
   cache w ck = None \<Longrightarrow>
   InlineChunk_objects E (cls ob, oid ob, ocn_key self) = Some c \<or>
   InlineChunk_objects E (cls ob, oid ob, ocn_key self) = None \<and>
     ocn_default_chunk self = Some dk \<and> dk \<noteq> [] \<and> Chunk_objects E dk = Some c \<Longrightarrow>
   \<not> truthy (context_get ctx ''request'') \<Longrightarrow>
   fst (ObjChunkNode_render E self ctx w) = Inl ImproperlyConfigured \<and>
   cache (snd (ObjChunkNode_render E self ctx w)) = cache w"
  by (auto simp: ObjChunkNode_render_inline ObjChunkNode_render_default
      build_and_cache_no_request catch_in_ImproperlyConfigured)

section \<open>A context without a request\<close>

text \<open>
  C3. The context holds no request (or a falsy one). Then a \<^verbatim>\<open>ChunkNode\<close> that misses the
  cache and finds its chunk, an \<^verbatim>\<open>ObjChunkNode\<close> that misses the cache and finds a chunk
  (the inline one, or the default when there is no inline one), and an
  \<^verbatim>\<open>ObjChunksListNode\<close> whose target name and owner resolve, all raise
  \<^verbatim>\<open>ImproperlyConfigured\<close> to the caller; nothing is stored and nothing is bound.
\<close>

theorem missing_request_raises:
  assumes "\<not> truthy (context_get ctx ''request'')"
  shows "(cache w (CACHE_PREFIX E @ cn_key gnode) = None \<and>
          Chunk_objects E (cn_key gnode) = Some c \<longrightarrow>
            fst (ChunkNode_render E gnode ctx w) = Inl ImproperlyConfigured \<and>
            cache (snd (ChunkNode_render E gnode ctx w)) = cache w) \<and>
         (Variable_resolve E (ocn_obj onode) ctx = Inr (PObj ob) \<and>
          chunk_item_cache_key E ob (ocn_key onode) = Inr ck \<and>
          cache w ck = None \<and>
          (InlineChunk_objects E (cls ob, oid ob, ocn_key onode) = Some c' \<or>
           InlineChunk_objects E (cls ob, oid ob, ocn_key onode) = None \<and>
             ocn_default_chunk onode = Some dk \<and> dk \<noteq> [] \<and> Chunk_objects E dk = Some c') \<longrightarrow>
            fst (ObjChunkNode_render E onode ctx w) = Inl ImproperlyConfigured \<and>
            cache (snd (ObjChunkNode_render E onode ctx w)) = cache w) \<and>
         (target_name E lnode ctx = Inr n \<and>
          Variable_resolve E (ocln_obj lnode) ctx = Inr obj \<longrightarrow>
            ObjChunksListNode_render E lnode ctx w = (Inl ImproperlyConfigured, ctx, w))"
proof (intro conjI impI)
  assume "cache w (CACHE_PREFIX E @ cn_key gnode) = None \<and> Chunk_objects E (cn_key gnode) = Some c"
  then have path: "ChunkNode_render E gnode ctx w =
      (Inl ImproperlyConfigured,
       log (ChunkGet (cn_key gnode)) (log (CacheGet (CACHE_PREFIX E @ cn_key gnode)) w))"
    using assms
    by (simp add: ChunkNode_render_found build_and_cache_no_request catch_in_ImproperlyConfigured)
  show "fst (ChunkNode_render E gnode ctx w) = Inl ImproperlyConfigured"
    by (simp add: path)
  show "cache (snd (ChunkNode_render E gnode ctx w)) = cache w"
    by (simp add: path)
next
  assume hyp: "Variable_resolve E (ocn_obj onode) ctx = Inr (PObj ob) \<and>
          chunk_item_cache_key E ob (ocn_key onode) = Inr ck \<and>
          cache w ck = None \<and>
          (InlineChunk_objects E (cls ob, oid ob, ocn_key onode) = Some c' \<or>
           InlineChunk_objects E (cls ob, oid ob, ocn_key onode) = None \<and>
             ocn_default_chunk onode = Some dk \<and> dk \<noteq> [] \<and> Chunk_objects E dk = Some c')"
  then have both: "fst (ObjChunkNode_render E onode ctx w) = Inl ImproperlyConfigured \<and>
      cache (snd (ObjChunkNode_render E onode ctx w)) = cache w"
    using assms by (intro ObjChunkNode_render_found_no_request) blast+
  show "fst (ObjChunkNode_render E onode ctx w) = Inl ImproperlyConfigured"
    using both by simp
  show "cache (snd (ObjChunkNode_render E onode ctx w)) = cache w"
    using both by simp
next
  assume "target_name E lnode ctx = Inr n \<and> Variable_resolve E (ocln_obj lnode) ctx = Inr obj"
  then show "ObjChunksListNode_render E lnode ctx w = (Inl ImproperlyConfigured, ctx, w)"
    using assms by (simp add: ObjChunksListNode_render_no_request)
qed

text \<open>
  The context \<open>bare\<close> has the article and no request.
\<close>

theorem missing_request_raises_witness:
  "bare (PStr ''request'') = None \<and>
   fst (ChunkNode_render site footer_node bare fresh) = Inl ImproperlyConfigured \<and>
   fst (ObjChunkNode_render site byline_node bare fresh) = Inl ImproperlyConfigured \<and>
   fst (ObjChunkNode_render site teaser_node bare fresh) = Inl ImproperlyConfigured \<and>
   ObjChunksListNode_render site list_node bare fresh = (Inl ImproperlyConfigured, bare, fresh)"
proof -
  have norequest: "\<not> truthy (context_get bare ''request'')"
    by (simp add: bare_def context_get_def)
  have absent: "bare (PStr ''request'') = None"
    by (simp add: bare_def)
  show ?thesis
    using absent
      missing_request_raises [OF norequest, where w = fresh and E = site and gnode = footer_node
        and c = "Chunk ''footer'' ''(c) Acme''" and onode = byline_node and ob = article
        and ck = "''chunk_article_42_byline''"
        and c' = "InlineChunk ''article'' 42 ''byline'' ''By J. Doe''"
        and lnode = list_node and n = "PStr ''all''" and obj = "PObj article"]
      missing_request_raises [OF norequest, where w = fresh and E = site and gnode = footer_node
        and onode = teaser_node and ob = article
        and ck = "''chunk_article_42_teaser''"
        and c' = "Chunk ''byline_default'' ''Staff''" and dk = "''byline_default''"]
    by (simp add: site_simps footer_node_def byline_node_def teaser_node_def list_node_def
        target_name_def)
qed

section \<open>An owner that does not resolve\<close>

text \<open>
  C6, amended for \<^verbatim>\<open>bind_all\<close> by the target name, which line 90 resolves outside the
  \<^verbatim>\<open>try\<close>. An \<^verbatim>\<open>ObjChunkNode\<close> whose owner variable does not resolve returns the empty string
  and touches nothing. An \<^verbatim>\<open>ObjChunksListNode\<close> whose owner variable does not resolve, and
  whose target name evaluates to a value that can be a key of the context, binds the empty
  dictionary under that name and returns; no exception leaves either call.
\<close>

theorem unresolved_owner_recovered:
  "(Variable_resolve E (ocn_obj onode) ctx = Inl VariableDoesNotExist \<longrightarrow>
      ObjChunkNode_render E onode ctx w = (Inr '''', w)) \<and>
   (Variable_resolve E (ocln_obj lnode) ctx = Inl VariableDoesNotExist \<and>
    target_name E lnode ctx = Inr n \<and> hashable n \<longrightarrow>
      ObjChunksListNode_render E lnode ctx w = (Inr '''', ctx(n \<mapsto> PDict []), w))"
  by (simp add: ObjChunkNode_render_unresolved ObjChunksListNode_render_unresolved)

text \<open>
  The page has no variable \<^verbatim>\<open>missing\<close>.
\<close>

theorem unresolved_owner_recovered_witness:
  "Variable_resolve site (Lookups [''missing'']) page = Inl VariableDoesNotExist \<and>
   ObjChunkNode_render site stray_node page fresh = (Inr '''', fresh) \<and>
   ObjChunksListNode_render site stray_list_node page fresh =
     (Inr '''', page(PStr ''all'' \<mapsto> PDict []), fresh)"
  using unresolved_owner_recovered [where E = site and onode = stray_node and ctx = page
      and w = fresh and lnode = stray_list_node and n = "PStr ''all''"]
  by (simp add: site_simps stray_node_def stray_list_node_def target_name_def)

text \<open>
  As the claim states it, for every call whose owner cannot be evaluated, it fails: in
  \<^verbatim>\<open>{% object_chunks_list missing nowhere %}\<close> neither variable is in the context, and the
  \<^verbatim>\<open>VariableDoesNotExist\<close> of the target name leaves \<^verbatim>\<open>render\<close>.
\<close>

theorem unresolved_target_name_propagates:
  "do_get_object_chunks_list site [''object_chunks_list'', ''missing'', ''nowhere''] =
     Inr lost_list_node \<and>
   Variable_resolve site (ocln_obj lost_list_node) bare = Inl VariableDoesNotExist \<and>
   fst (ObjChunksListNode_render site lost_list_node bare fresh) = Inl VariableDoesNotExist"
  by (simp add: do_get_object_chunks_list_def ObjChunksListNode_init_def quotes_def
      lost_list_node_def site_simps is_quoted_def ObjChunksListNode_render_def target_name_def)

section \<open>Binding all chunks of an owner\<close>

text \<open>
  C8. A node that \<^verbatim>\<open>ObjChunksListNode.__init__\<close> built from the owner token and the target
  name token. The name \<open>n\<close> is what the \<^verbatim>\<open>Variable\<close> of the target name token stands for: the
  literal itself when Django reads the token as a literal (a quoted string), the value
  looked up in the context when it reads it as a variable. When the owner resolves, a
  request is present and the owner's \<^verbatim>\<open>chunks\<close> returns \<open>m\<close>, the render binds exactly \<open>m\<close>
  under \<open>n\<close>, returns, and the only call it has added to the log is the one to
  \<^verbatim>\<open>obj.chunks\<close>: the cache is neither read nor written.
\<close>

theorem bind_all_binds_mapping:
  assumes "ObjChunksListNode_init E obj_tok name_tok = Inr self"
    and "Variable E name_tok = Inr nv"
    and "(case nv of Literal v \<Rightarrow> Inr v | Lookups bits \<Rightarrow> resolve_lookup E bits ctx) = Inr n"
    and "hashable n"
    and "Variable_resolve E (ocln_obj self) ctx = Inr (PObj ob)"
    and "truthy (context_get ctx ''request'')"
    and "chunks E ob (context_get ctx ''request'') ctx = Inr m"
  shows "ObjChunksListNode_render E self ctx w =
           (Inr '''', ctx(n \<mapsto> m), w\<lparr>trace := trace w @ [OwnerChunks ob]\<rparr>)"
proof -
  have "target_name E self ctx = Variable_resolve E nv ctx"
    using assms(1,2) by (rule target_name_init)
  then have "target_name E self ctx = Inr n"
    using assms(3) by (simp add: Variable_resolve_def)
  then have "ObjChunksListNode_render E self ctx w =
      (Inr '''', ctx(n \<mapsto> m), log (OwnerChunks ob) w)"
    using assms(4-7) by (rule ObjChunksListNode_render_ok)
  then show ?thesis by (simp add: log_def)
qed

text \<open>
  \<^verbatim>\<open>{% object_chunks_list article "all" %}\<close> binds under the literal \<^verbatim>\<open>all\<close>;
  \<^verbatim>\<open>{% object_chunks_list article slot %}\<close> binds under \<^verbatim>\<open>sidebar\<close>, the value of \<^verbatim>\<open>slot\<close>.
\<close>

theorem bind_all_binds_mapping_witness:
  "ObjChunksListNode_render site list_node page fresh =
     (Inr '''',
      page(PStr ''all'' \<mapsto> PDict [(''byline'', ''By J. Doe''), (''note'', '''')]),
      fresh\<lparr>trace := [OwnerChunks article]\<rparr>) \<and>
   do_get_object_chunks_list site [''object_chunks_list'', ''article'', ''slot''] =
     Inr slot_list_node \<and>
   ObjChunksListNode_render site slot_list_node page fresh =
     (Inr '''',
      page(PStr ''sidebar'' \<mapsto> PDict [(''byline'', ''By J. Doe''), (''note'', '''')]),
      fresh\<lparr>trace := [OwnerChunks article]\<rparr>)"
proof -
  let ?quoted = "[CHR 0x22] @ ''all'' @ [CHR 0x22]"
  let ?m = "PDict [(''byline'', ''By J. Doe''), (''note'', '''')]"
  have init: "ObjChunksListNode_init site ''article'' ?quoted = Inr list_node"
    by (simp add: ObjChunksListNode_init_def quotes_def list_node_def site_def
        site_Variable_def is_quoted_def unquote_def)
  have name: "Variable site ?quoted = Inr (Literal (PStr ''all''))"
    by (simp add: site_def site_Variable_def is_quoted_def unquote_def)
  have val: "(case Literal (PStr ''all'') of Literal v \<Rightarrow> Inr v
              | Lookups bits \<Rightarrow> resolve_lookup site bits page) = Inr (PStr ''all'')"
    by simp
  have hash: "hashable (PStr ''all'')" by simp
  have owner: "Variable_resolve site (ocln_obj list_node) page = Inr (PObj article)"
    by (simp add: site_simps list_node_def)
  have request: "truthy (context_get page ''request'')"
    by (simp add: page_def context_get_def)
  have agg: "chunks site article (context_get page ''request'') page = Inr ?m"
    by (simp add: site_def)
  have first: "ObjChunksListNode_render site list_node page fresh =
      (Inr '''', page(PStr ''all'' \<mapsto> ?m), fresh\<lparr>trace := [OwnerChunks article]\<rparr>)"
    using bind_all_binds_mapping [OF init name val hash owner request agg, of fresh]
    by (simp add: fresh_def)
  let ?node = "slot_list_node"
  have init2: "ObjChunksListNode_init site ''article'' ''slot'' = Inr ?node"
    by (simp add: ObjChunksListNode_init_def quotes_def site_def slot_list_node_def
        site_Variable_def is_quoted_def unquote_def)
  have name2: "Variable site ''slot'' = Inr (Lookups [''slot''])"
    by (simp add: site_def site_Variable_def is_quoted_def)
  have val2: "(case Lookups [''slot''] of Literal v \<Rightarrow> Inr v
              | Lookups bits \<Rightarrow> resolve_lookup site bits page) = Inr (PStr ''sidebar'')"
    by (simp add: site_def site_resolve_lookup_def page_def)
  have hash2: "hashable (PStr ''sidebar'')" by simp
  have owner2: "Variable_resolve site (ocln_obj ?node) page = Inr (PObj article)"
    by (simp add: site_simps slot_list_node_def)
  have second: "ObjChunksListNode_render site ?node page fresh =
      (Inr '''', page(PStr ''sidebar'' \<mapsto> ?m), fresh\<lparr>trace := [OwnerChunks article]\<rparr>)"
    using bind_all_binds_mapping [OF init2 name2 val2 hash2 owner2 request agg, of fresh]
    by (simp add: fresh_def)
  have parsed: "do_get_object_chunks_list site [''object_chunks_list'', ''article'', ''slot''] =
      Inr ?node"
    by (simp add: do_get_object_chunks_list_def init2)
  show ?thesis using first second parsed by simp
qed

text \<open>
  C10. Whenever \<^verbatim>\<open>ObjChunksListNode.render\<close> returns, it returns the empty string, and
  what it has done is line 103: the context it leaves is the one it found with \<open>m\<close> bound
  under \<open>n\<close>, where \<open>n\<close> is the target name of lines 86 to 90 and \<open>m\<close> is the value the
  \<^verbatim>\<open>try\<close> block of lines 92 to 102 left in \<^verbatim>\<open>chunks\<close>: the empty dictionary when the owner does
  not resolve, the owner's mapping when it resolves and \<^verbatim>\<open>obj.chunks\<close> returns one. The world
  is the one that block left; the cache is as it was, and no call to it is logged.
\<close>

theorem bind_all_output_empty:
  assumes "fst (ObjChunksListNode_render E self ctx w) = Inr out"
  shows "out = '''' \<and>
         (\<exists>n m. target_name E self ctx = Inr n \<and>
                collect_chunks E self ctx w =
                  (Inr m, snd (snd (ObjChunksListNode_render E self ctx w))) \<and>
                fst (snd (ObjChunksListNode_render E self ctx w)) = ctx(n \<mapsto> m) \<and>
                (Variable_resolve E (ocln_obj self) ctx = Inl VariableDoesNotExist \<longrightarrow>
                   m = PDict []) \<and>
                (\<forall>ob m'. Variable_resolve E (ocln_obj self) ctx = Inr (PObj ob) \<and>
                   chunks E ob (context_get ctx ''request'') ctx = Inr m' \<longrightarrow> m = m')) \<and>
         cache (snd (snd (ObjChunksListNode_render E self ctx w))) = cache w \<and>
         \<not> list_ex is_cache_event
             (new_events w (snd (snd (ObjChunksListNode_render E self ctx w))))"
proof -
  obtain r w1 where cc: "collect_chunks E self ctx w = (r, w1)"
    by (cases "collect_chunks E self ctx w")
  from collect_chunks_world [of E self ctx w] cc
  obtain evs where w1: "cache w1 = cache w" "trace w1 = trace w @ evs"
      "\<not> list_ex is_cache_event evs"
    by auto
  obtain n where n: "target_name E self ctx = Inr n"
    using assms by (cases "target_name E self ctx") (simp_all add: ObjChunksListNode_render_def)
  obtain m where m: "r = Inr m"
    using assms n cc by (cases r) (simp_all add: ObjChunksListNode_render_def)
  have h: "hashable n"
    using assms n cc m by (cases "hashable n") (simp_all add: ObjChunksListNode_render_def)
  have res: "ObjChunksListNode_render E self ctx w = (Inr '''', ctx(n \<mapsto> m), w1)"
    using n cc m h by (simp add: ObjChunksListNode_render_def)
  have unresolved: "m = PDict []"
    if "Variable_resolve E (ocln_obj self) ctx = Inl VariableDoesNotExist"
    using that cc m by (simp add: collect_chunks_unresolved)
  have resolved: "m = m'"
    if "Variable_resolve E (ocln_obj self) ctx = Inr (PObj ob)"
      and "chunks E ob (context_get ctx ''request'') ctx = Inr m'" for ob m'
  proof (cases "truthy (context_get ctx ''request'')")
    case True
    then show ?thesis
      using that cc m by (simp add: collect_chunks_ok)
  next
    case False
    then show ?thesis
      using that(1) cc m by (simp add: collect_chunks_no_request)
  qed
  have ev: "new_events w w1 = evs"
    using w1(2) by (rule new_events_append)
  have bound: "\<exists>n m. target_name E self ctx = Inr n \<and>
                collect_chunks E self ctx w =
                  (Inr m, snd (snd (ObjChunksListNode_render E self ctx w))) \<and>
                fst (snd (ObjChunksListNode_render E self ctx w)) = ctx(n \<mapsto> m) \<and>
                (Variable_resolve E (ocln_obj self) ctx = Inl VariableDoesNotExist \<longrightarrow>
                   m = PDict []) \<and>
                (\<forall>ob m'. Variable_resolve E (ocln_obj self) ctx = Inr (PObj ob) \<and>
                   chunks E ob (context_get ctx ''request'') ctx = Inr m' \<longrightarrow> m = m')"
    using n cc m res unresolved resolved by (intro exI [of _ n] exI [of _ m]) auto
  have "out = ''''"
    using assms res by simp
  then show ?thesis
    using bound res w1(1,3) ev by simp
qed

text \<open>
  A list node whose owner resolves binds the article's mapping under \<^verbatim>\<open>all\<close>; one whose
  owner does not resolve binds the empty dictionary there. Both return the empty string.
\<close>

theorem bind_all_output_empty_witness:
  "ObjChunksListNode_render site list_node page fresh =
     (Inr '''',
      page(PStr ''all'' \<mapsto> PDict [(''byline'', ''By J. Doe''), (''note'', '''')]),
      fresh\<lparr>trace := [OwnerChunks article]\<rparr>) \<and>
   target_name site list_node page = Inr (PStr ''all'') \<and>
   collect_chunks site list_node page fresh =
     (Inr (PDict [(''byline'', ''By J. Doe''), (''note'', '''')]),
      fresh\<lparr>trace := [OwnerChunks article]\<rparr>) \<and>
   ObjChunksListNode_render site stray_list_node page fresh =
     (Inr '''', page(PStr ''all'' \<mapsto> PDict []), fresh) \<and>
   target_name site stray_list_node page = Inr (PStr ''all'') \<and>
   collect_chunks site stray_list_node page fresh = (Inr (PDict []), fresh)"
proof -
  have ok: "ObjChunksListNode_render site list_node page fresh =
     (Inr '''',
      page(PStr ''all'' \<mapsto> PDict [(''byline'', ''By J. Doe''), (''note'', '''')]),
      fresh\<lparr>trace := [OwnerChunks article]\<rparr>)"
    by (simp add: ObjChunksListNode_render_def target_name_def collect_chunks_def
        call_chunks_def catch_in_def log_def site_simps list_node_def)
  have stray: "ObjChunksListNode_render site stray_list_node page fresh =
     (Inr '''', page(PStr ''all'' \<mapsto> PDict []), fresh)"
    by (simp add: ObjChunksListNode_render_def target_name_def collect_chunks_def
        call_chunks_def catch_in_def site_simps stray_list_node_def)
  have ok_out: "fst (ObjChunksListNode_render site list_node page fresh) = Inr ''''"
    by (simp add: ok)
  have stray_out: "fst (ObjChunksListNode_render site stray_list_node page fresh) = Inr ''''"
    by (simp add: stray)
  show ?thesis
    using bind_all_output_empty [OF ok_out] bind_all_output_empty [OF stray_out]
    by (simp add: ObjChunksListNode_render_def target_name_def collect_chunks_def
        call_chunks_def catch_in_def log_def site_simps list_node_def stray_list_node_def)
qed

section \<open>Empty renders\<close>

lemma ChunkNode_render_found_ok:
  "cache w (CACHE_PREFIX E @ cn_key self) = None \<Longrightarrow>
   Chunk_objects E (cn_key self) = Some c \<Longrightarrow>
   truthy (context_get ctx ''request'') \<Longrightarrow>
   build_content E c (context_get ctx ''request'') ctx = Inr content \<Longrightarrow>
   py_int (cn_cache_time self) = Inr ttl \<Longrightarrow>
   fst (ChunkNode_render E self ctx w) = Inr content \<and>
   cache (snd (ChunkNode_render E self ctx w)) =
     (cache w)(CACHE_PREFIX E @ cn_key self \<mapsto> (content, ttl))"
  by (simp add: ChunkNode_render_found build_and_cache_ok)

lemma ObjChunkNode_render_found_ok:
  "Variable_resolve E (ocn_obj self) ctx = Inr (PObj ob) \<Longrightarrow>
   chunk_item_cache_key E ob (ocn_key self) = Inr ck \<Longrightarrow>
   cache w ck = None \<Longrightarrow>
   InlineChunk_objects E (cls ob, oid ob, ocn_key self) = Some c \<or>
   InlineChunk_objects E (cls ob, oid ob, ocn_key self) = None \<and>
     ocn_default_chunk self = Some dk \<and> dk \<noteq> [] \<and> Chunk_objects E dk = Some c \<Longrightarrow>
   truthy (context_get ctx ''request'') \<Longrightarrow>
   build_content E c (context_get ctx ''request'') ctx = Inr content \<Longrightarrow>
   py_int (ocn_cache_time self) = Inr ttl \<Longrightarrow>
   fst (ObjChunkNode_render E self ctx w) = Inr content \<and>
   cache (snd (ObjChunkNode_render E self ctx w)) = (cache w)(ck \<mapsto> (content, ttl))"
  by (auto simp: ObjChunkNode_render_inline ObjChunkNode_render_default build_and_cache_ok)

text \<open>
  C9. A request is in the context. When a chunk that is found on a cache miss renders to
  the empty string, both renders return it and store it under the cache key with the
  timeout; in any later world \<open>w'\<close> (\<open>w''\<close>) where that entry still stands, the same render
  returns the empty string after the \<^verbatim>\<open>cache.get\<close> alone, with no lookup in a table: the
  test of lines 116 and 38 is \<^verbatim>\<open>content is None\<close>. When no chunk is found, the key is still
  absent from the cache after the call.
\<close>

theorem empty_render_is_cached:
  assumes "truthy (context_get ctx ''request'')"
  shows
    "(cache w (CACHE_PREFIX E @ cn_key gnode) = None \<and>
      Chunk_objects E (cn_key gnode) = Some c \<and>
      build_content E c (context_get ctx ''request'') ctx = Inr '''' \<and>
      py_int (cn_cache_time gnode) = Inr ttl \<and>
      cache w' (CACHE_PREFIX E @ cn_key gnode) =
        cache (snd (ChunkNode_render E gnode ctx w)) (CACHE_PREFIX E @ cn_key gnode) \<longrightarrow>
        fst (ChunkNode_render E gnode ctx w) = Inr '''' \<and>
        cache (snd (ChunkNode_render E gnode ctx w)) (CACHE_PREFIX E @ cn_key gnode) =
          Some ('''', ttl) \<and>
        ChunkNode_render E gnode ctx w' =
          (Inr '''', w'\<lparr>trace := trace w' @ [CacheGet (CACHE_PREFIX E @ cn_key gnode)]\<rparr>)) \<and>
     (Variable_resolve E (ocn_obj onode) ctx = Inr (PObj ob) \<and>
      chunk_item_cache_key E ob (ocn_key onode) = Inr ck \<and>
      cache w ck = None \<and>
      (InlineChunk_objects E (cls ob, oid ob, ocn_key onode) = Some c' \<or>
       InlineChunk_objects E (cls ob, oid ob, ocn_key onode) = None \<and>
         ocn_default_chunk onode = Some dk \<and> dk \<noteq> [] \<and> Chunk_objects E dk = Some c') \<and>
      build_content E c' (context_get ctx ''request'') ctx = Inr '''' \<and>
      py_int (ocn_cache_time onode) = Inr ttl' \<and>
      cache w'' ck = cache (snd (ObjChunkNode_render E onode ctx w)) ck \<longrightarrow>
        fst (ObjChunkNode_render E onode ctx w) = Inr '''' \<and>
        cache (snd (ObjChunkNode_render E onode ctx w)) ck = Some ('''', ttl') \<and>
        ObjChunkNode_render E onode ctx w'' =
          (Inr '''', w''\<lparr>trace := trace w'' @ [CacheGet ck]\<rparr>)) \<and>
     (cache w (CACHE_PREFIX E @ cn_key gnode) = None \<and>
      Chunk_objects E (cn_key gnode) = None \<longrightarrow>
        cache (snd (ChunkNode_render E gnode ctx w)) (CACHE_PREFIX E @ cn_key gnode) = None) \<and>
     (Variable_resolve E (ocn_obj onode) ctx = Inr (PObj ob) \<and>
      chunk_item_cache_key E ob (ocn_key onode) = Inr ck \<and>
      cache w ck = None \<and>
      InlineChunk_objects E (cls ob, oid ob, ocn_key onode) = None \<and>
      (case ocn_default_chunk onode of None \<Rightarrow> True | Some dk \<Rightarrow> Chunk_objects E dk = None) \<longrightarrow>
        cache (snd (ObjChunkNode_render E onode ctx w)) ck = None)"
proof (intro conjI impI)
  let ?gk = "CACHE_PREFIX E @ cn_key gnode"
  assume hyp: "cache w ?gk = None \<and> Chunk_objects E (cn_key gnode) = Some c \<and>
      build_content E c (context_get ctx ''request'') ctx = Inr '''' \<and>
      py_int (cn_cache_time gnode) = Inr ttl \<and>
      cache w' ?gk = cache (snd (ChunkNode_render E gnode ctx w)) ?gk"
  then have first: "fst (ChunkNode_render E gnode ctx w) = Inr '''' \<and>
      cache (snd (ChunkNode_render E gnode ctx w)) = (cache w)(?gk \<mapsto> ('''', ttl))"
    using assms by (intro ChunkNode_render_found_ok) blast+
  show "fst (ChunkNode_render E gnode ctx w) = Inr ''''"
    using first by simp
  show stored: "cache (snd (ChunkNode_render E gnode ctx w)) ?gk = Some ('''', ttl)"
    using first by simp
  have "cache w' ?gk = Some ('''', ttl)"
    using hyp stored by simp
  then show "ChunkNode_render E gnode ctx w' = (Inr '''', w'\<lparr>trace := trace w' @ [CacheGet ?gk]\<rparr>)"
    by (simp add: ChunkNode_render_hit log_def)
next
  assume hyp: "Variable_resolve E (ocn_obj onode) ctx = Inr (PObj ob) \<and>
      chunk_item_cache_key E ob (ocn_key onode) = Inr ck \<and>
      cache w ck = None \<and>
      (InlineChunk_objects E (cls ob, oid ob, ocn_key onode) = Some c' \<or>
       InlineChunk_objects E (cls ob, oid ob, ocn_key onode) = None \<and>
         ocn_default_chunk onode = Some dk \<and> dk \<noteq> [] \<and> Chunk_objects E dk = Some c') \<and>
      build_content E c' (context_get ctx ''request'') ctx = Inr '''' \<and>
      py_int (ocn_cache_time onode) = Inr ttl' \<and>
      cache w'' ck = cache (snd (ObjChunkNode_render E onode ctx w)) ck"
  then have first: "fst (ObjChunkNode_render E onode ctx w) = Inr '''' \<and>
      cache (snd (ObjChunkNode_render E onode ctx w)) = (cache w)(ck \<mapsto> ('''', ttl'))"
    using assms by (intro ObjChunkNode_render_found_ok [where c = c' and dk = dk]) blast+
  show "fst (ObjChunkNode_render E onode ctx w) = Inr ''''"
    using first by simp
  show stored: "cache (snd (ObjChunkNode_render E onode ctx w)) ck = Some ('''', ttl')"
    using first by simp
  have hit: "cache w'' ck = Some ('''', ttl')"
    using hyp stored by simp
  have owner: "Variable_resolve E (ocn_obj onode) ctx = Inr (PObj ob)"
    using hyp by blast
  have "chunk_item_cache_key E ob (ocn_key onode) = Inr ck"
    using hyp by blast
  then have key: "call_chunk_item_cache_key E (PObj ob) (ocn_key onode) = Inr ck"
    by (simp add: call_chunk_item_cache_key_def)
  show "ObjChunkNode_render E onode ctx w'' = (Inr '''', w''\<lparr>trace := trace w'' @ [CacheGet ck]\<rparr>)"
    using ObjChunkNode_render_hit [OF owner key hit] by (simp add: log_def)
next
  assume "cache w (CACHE_PREFIX E @ cn_key gnode) = None \<and> Chunk_objects E (cn_key gnode) = None"
  then show "cache (snd (ChunkNode_render E gnode ctx w)) (CACHE_PREFIX E @ cn_key gnode) = None"
    by (simp add: ChunkNode_render_absent)
next
  assume "Variable_resolve E (ocn_obj onode) ctx = Inr (PObj ob) \<and>
      chunk_item_cache_key E ob (ocn_key onode) = Inr ck \<and>
      cache w ck = None \<and>
      InlineChunk_objects E (cls ob, oid ob, ocn_key onode) = None \<and>
      (case ocn_default_chunk onode of None \<Rightarrow> True | Some dk \<Rightarrow> Chunk_objects E dk = None)"
  then show "cache (snd (ObjChunkNode_render E onode ctx w)) ck = None"
    by (simp add: ObjChunkNode_render_absent split: option.splits)
qed

lemmas render_defs = ChunkNode_render_def ObjChunkNode_render_def cache_get_def cache_set_def
  log_def Chunk_objects_get_def InlineChunk_objects_get_def build_and_cache_def catch_in_def
  Let_def strip_def is_space_def parse_digits_def is_digit_def digit_val_def

text \<open>
  The global chunk \<^verbatim>\<open>blank\<close> and the article's inline chunk \<^verbatim>\<open>note\<close> have empty content: the
  second render of each, run in the world the first one left, reads the cache only.
\<close>

theorem empty_render_is_cached_witness:
  "ChunkNode_render site blank_node page fresh =
     (Inr '''',
      \<lparr>cache = [''chunk_blank'' \<mapsto> ('''', 60)],
       trace = [CacheGet ''chunk_blank'', ChunkGet ''blank'', BuildContent (Chunk ''blank'' ''''),
                CacheSet ''chunk_blank'' '''' 60]\<rparr>) \<and>
   ChunkNode_render site blank_node page (snd (ChunkNode_render site blank_node page fresh)) =
     (Inr '''',
      \<lparr>cache = [''chunk_blank'' \<mapsto> ('''', 60)],
       trace = [CacheGet ''chunk_blank'', ChunkGet ''blank'', BuildContent (Chunk ''blank'' ''''),
                CacheSet ''chunk_blank'' '''' 60, CacheGet ''chunk_blank'']\<rparr>) \<and>
   fst (ObjChunkNode_render site note_node page fresh) = Inr '''' \<and>
   cache (snd (ObjChunkNode_render site note_node page fresh)) ''chunk_article_42_note'' =
     Some ('''', 30) \<and>
   ObjChunkNode_render site note_node page (snd (ObjChunkNode_render site note_node page fresh)) =
     (Inr '''',
      \<lparr>cache = [''chunk_article_42_note'' \<mapsto> ('''', 30)],
       trace = [CacheGet ''chunk_article_42_note'', InlineChunkGet ''article'' 42 ''note'',
                BuildContent (InlineChunk ''article'' 42 ''note'' ''''),
                CacheSet ''chunk_article_42_note'' '''' 30,
                CacheGet ''chunk_article_42_note'']\<rparr>)"
proof -
  have request: "truthy (context_get page ''request'')"
    by (simp add: page_def context_get_def)
  show ?thesis
    using empty_render_is_cached [OF request, where E = site and w = fresh
        and gnode = blank_node and c = "Chunk ''blank'' ''''" and ttl = 60
        and w' = "snd (ChunkNode_render site blank_node page fresh)"
        and onode = note_node and ob = article and ck = "''chunk_article_42_note''"
        and c' = "InlineChunk ''article'' 42 ''note'' ''''" and ttl' = 30
        and w'' = "snd (ObjChunkNode_render site note_node page fresh)"]
    by (simp add: render_defs site_simps blank_node_def note_node_def)
qed


end
